theory Spec2Isabelle
  imports Complex_Main
begin

unbundle bit_operations_syntax

section \<open>The split tree of the window manager (wm.go)\<close>

text \<open>
  wm.go keeps the panes of the display in a binary tree of \<open>DisplayNode\<close> objects that
  are linked by pointers and rewritten in place. Panes are compared by reference.
  The embedding therefore has an explicit store: node objects live at addresses, a
  \<open>*DisplayNode\<close> is an \<open>addr option\<close> (\<open>None\<close> is Go's \<open>nil\<close>), and an interface value
  of type \<open>Pane\<close> is a \<open>Pane option\<close> whose payload is the address of the object it
  points to. A nil dereference, which panics in Go, is the error value \<open>NilDeref\<close>.
  A recursion over the pointers need not end on a cyclic store, so those functions
  are partial functions into \<open>option\<close>: \<open>None\<close> says that the call does not return.
\<close>

subsection \<open>Data\<close>

type_synonym addr = nat

text \<open>\<open>float32\<close> values are only stored and copied by the functions modelled here.\<close>

type_synonym float32 = real

text \<open>\<open>type SplitType int\<close> with the constants \<open>SplitAxisNone = iota\<close>, \<open>SplitAxisX\<close>, \<open>SplitAxisY\<close>.\<close>

type_synonym SplitType = int

abbreviation SplitAxisNone :: SplitType where "SplitAxisNone \<equiv> 0"
abbreviation SplitAxisX :: SplitType where "SplitAxisX \<equiv> 1"
abbreviation SplitAxisY :: SplitType where "SplitAxisY \<equiv> 2"

record SplitLine =
  Pos :: float32
  Axis :: SplitType

text \<open>
  A non-nil \<open>Pane\<close> is a pointer: to a pane object of one of the concrete pane types
  (\<open>PaneObj\<close>), or to the \<open>SplitLine\<close> field of the node at an address (\<open>SplitLinePtr\<close>,
  Go's \<open>&d.SplitLine\<close>). Go compares two such interface values by their dynamic type
  and their address, which is equality of this datatype.
\<close>

datatype Pane = PaneObj addr | SplitLinePtr addr

record DisplayNode =
  Pane :: "Pane option"
  SplitLine :: SplitLine
  Children :: "addr option \<times> addr option"

definition zeroNode :: DisplayNode where
  "zeroNode = \<lparr>Pane = None, SplitLine = \<lparr>Pos = 0, Axis = SplitAxisNone\<rparr>, Children = (None, None)\<rparr>"

text \<open>
  The concrete pane types are not part of wm.go. Of a pane object the window manager
  uses its dynamic type (as printed by \<open>%T\<close>), \<open>Name()\<close> and \<open>CanTakeKeyboardFocus()\<close>.
\<close>

record pane_obj =
  ptype :: string
  pname :: string
  canFocus :: bool

datatype error = NilDeref | IndexOutOfRange | JSONError

text \<open>
  The store and the package-level variables of wm.go. \<open>next_node\<close> and \<open>next_pane\<close> are
  the allocator: Go's \<open>&T{...}\<close> returns an address that is in use nowhere else.
  \<open>errlog\<close> collects the messages of \<open>lg.Errorf\<close>.
\<close>

record heap =
  nodes :: "addr \<Rightarrow> DisplayNode"
  next_node :: addr
  pane_objs :: "addr \<Rightarrow> pane_obj"
  next_pane :: addr
  errlog :: "string list"

subsection \<open>Results that may panic or not return\<close>

type_synonym 'a res = "(error + 'a) option"

definition ret :: "'a \<Rightarrow> 'a res" where
  "ret x = Some (Inr x)"

definition panic :: "error \<Rightarrow> 'a res" where
  "panic e = Some (Inl e)"

definition bindR :: "'a res \<Rightarrow> ('a \<Rightarrow> 'b res) \<Rightarrow> 'b res" where
  "bindR m f = Option.bind m (\<lambda>r. case r of Inl e \<Rightarrow> Some (Inl e) | Inr v \<Rightarrow> f v)"

definition lift :: "error + 'a \<Rightarrow> 'a res" where
  "lift r = Some r"

text \<open>\<open>new_node\<close> is \<open>&DisplayNode{...}\<close>: a fresh object with the given contents.\<close>

definition new_node :: "DisplayNode \<Rightarrow> 'a heap_scheme \<Rightarrow> 'a heap_scheme \<times> addr" where
  "new_node n w = (w\<lparr>nodes := (nodes w)(next_node w := n), next_node := Suc (next_node w)\<rparr>, next_node w)"

definition new_pane :: "pane_obj \<Rightarrow> 'a heap_scheme \<Rightarrow> 'a heap_scheme \<times> Pane" where
  "new_pane p w =
     (w\<lparr>pane_objs := (pane_objs w)(next_pane w := p), next_pane := Suc (next_pane w)\<rparr>,
      PaneObj (next_pane w))"

definition Errorf :: "string \<Rightarrow> 'a heap_scheme \<Rightarrow> 'a heap_scheme" where
  "Errorf msg w = w\<lparr>errlog := errlog w @ [msg]\<rparr>"

subsection \<open>DisplayNode.NodeForPane\<close>

partial_function (option) NodeForPane ::
  "(addr \<Rightarrow> DisplayNode) \<Rightarrow> addr option \<Rightarrow> Pane option \<Rightarrow> (error + addr option) option"
where
  "NodeForPane h d pane =
     (case d of
        None \<Rightarrow> Some (Inl NilDeref)
      | Some a \<Rightarrow>
          if Pane (h a) = pane then Some (Inr d)
          else if fst (Children (h a)) = None then Some (Inr None)
          else Option.bind (NodeForPane h (fst (Children (h a))) pane) (\<lambda>r0.
            case r0 of
              Inl e \<Rightarrow> Some (Inl e)
            | Inr d0 \<Rightarrow>
                if d0 \<noteq> None then Some (Inr d0)
                else NodeForPane h (snd (Children (h a))) pane))"

subsection \<open>DisplayNode.SplitX and DisplayNode.SplitY\<close>

definition SplitX ::
  "addr option \<Rightarrow> float32 \<Rightarrow> addr option \<Rightarrow> 'a heap_scheme \<Rightarrow> error + 'a heap_scheme \<times> addr"
where
  "SplitX d x newChild w =
     (case d of
        None \<Rightarrow> Inl NilDeref
      | Some a \<Rightarrow>
          let w1 = (if Axis (SplitLine (nodes w a)) \<noteq> SplitAxisNone
                    then Errorf ''splitting a non-leaf node'' w else w)
          in Inr (new_node \<lparr>Pane = None, SplitLine = \<lparr>Pos = x, Axis = SplitAxisX\<rparr>,
                            Children = (d, newChild)\<rparr> w1))"

definition SplitY ::
  "addr option \<Rightarrow> float32 \<Rightarrow> addr option \<Rightarrow> 'a heap_scheme \<Rightarrow> error + 'a heap_scheme \<times> addr"
where
  "SplitY d y newChild w =
     (case d of
        None \<Rightarrow> Inl NilDeref
      | Some a \<Rightarrow>
          let w1 = (if Axis (SplitLine (nodes w a)) \<noteq> SplitAxisNone
                    then Errorf ''splitting a non-leaf node'' w else w)
          in Inr (new_node \<lparr>Pane = None, SplitLine = \<lparr>Pos = y, Axis = SplitAxisX\<rparr>,
                            Children = (d, newChild)\<rparr> w1))"

subsection \<open>Well-formed trees\<close>

text \<open>
  The invariant that the comments of \<open>DisplayNode\<close> state: the pane is set iff the axis
  is \<open>SplitAxisNone\<close>, both children are set iff it is not. \<open>ntree\<close> is the tree that a
  store holds below an address; \<open>repr h t\<close> says that the store \<open>h\<close> holds \<open>t\<close>.
\<close>

datatype ntree = NLeaf addr Pane | NNode addr SplitLine ntree ntree

fun root_of :: "ntree \<Rightarrow> addr" where
  "root_of (NLeaf a p) = a"
| "root_of (NNode a sl l r) = a"

fun addrs :: "ntree \<Rightarrow> addr list" where
  "addrs (NLeaf a p) = [a]"
| "addrs (NNode a sl l r) = a # addrs l @ addrs r"

fun leaf_panes :: "ntree \<Rightarrow> Pane list" where
  "leaf_panes (NLeaf a p) = [p]"
| "leaf_panes (NNode a sl l r) = leaf_panes l @ leaf_panes r"

fun repr :: "(addr \<Rightarrow> DisplayNode) \<Rightarrow> ntree \<Rightarrow> bool" where
  "repr h (NLeaf a p) =
     (Pane (h a) = Some p \<and> Axis (SplitLine (h a)) = SplitAxisNone \<and>
      Children (h a) = (None, None))"
| "repr h (NNode a sl l r) =
     (Pane (h a) = None \<and> SplitLine (h a) = sl \<and>
      (Axis sl = SplitAxisX \<or> Axis sl = SplitAxisY) \<and>
      Children (h a) = (Some (root_of l), Some (root_of r)) \<and> repr h l \<and> repr h r)"

text \<open>The first leaf, in depth-first order, that holds a pane.\<close>

fun find_leaf :: "ntree \<Rightarrow> Pane \<Rightarrow> addr option" where
  "find_leaf (NLeaf a p) q = (if p = q then Some a else None)"
| "find_leaf (NNode a sl l r) q =
     (case find_leaf l q of Some b \<Rightarrow> Some b | None \<Rightarrow> find_leaf r q)"


subsection \<open>The methods of a Pane\<close>

text \<open>
  \<open>SplitLine\<close> implements \<open>Pane\<close> in wm.go itself: its name is \<open>Split Line\<close>, it never
  takes the keyboard focus, and its \<open>Duplicate\<close> logs an error and returns
  \<open>&SplitLine{}\<close>. That fresh split line is modelled as the \<open>SplitLine\<close> field of a
  fresh node that nothing else refers to. Calling a method of a nil \<open>Pane\<close> panics.
\<close>

definition Pane_Name :: "'a heap_scheme \<Rightarrow> Pane option \<Rightarrow> error + string" where
  "Pane_Name w p =
     (case p of
        None \<Rightarrow> Inl NilDeref
      | Some (PaneObj a) \<Rightarrow> Inr (pname (pane_objs w a))
      | Some (SplitLinePtr a) \<Rightarrow> Inr ''Split Line'')"

definition CanTakeKeyboardFocus :: "'a heap_scheme \<Rightarrow> Pane option \<Rightarrow> error + bool" where
  "CanTakeKeyboardFocus w p =
     (case p of
        None \<Rightarrow> Inl NilDeref
      | Some (PaneObj a) \<Rightarrow> Inr (canFocus (pane_objs w a))
      | Some (SplitLinePtr a) \<Rightarrow> Inr False)"

text \<open>The type assertions \<open>p.(*CLIPane)\<close> and \<open>p.(*SplitLine)\<close>; both are false for nil.\<close>

definition isCLIPane :: "'a heap_scheme \<Rightarrow> Pane option \<Rightarrow> bool" where
  "isCLIPane w p =
     (case p of
        Some (PaneObj a) \<Rightarrow> ptype (pane_objs w a) = ''*main.CLIPane''
      | _ \<Rightarrow> False)"

definition isSplitLine :: "Pane option \<Rightarrow> bool" where
  "isSplitLine p = (case p of Some (SplitLinePtr a) \<Rightarrow> True | _ \<Rightarrow> False)"

text \<open>
  Modelled from the spec: \<open>Duplicate(nameAsCopy)\<close> of the concrete pane types, which are
  not in wm.go. The spec has it return a fresh pane; what the copy holds is the
  parameter \<open>pdup\<close>. The case of a \<open>SplitLine\<close> is the code of wm.go.
\<close>

definition Pane_Duplicate ::
  "(pane_obj \<Rightarrow> bool \<Rightarrow> pane_obj) \<Rightarrow> Pane option \<Rightarrow> bool \<Rightarrow> 'a heap_scheme \<Rightarrow>
   error + 'a heap_scheme \<times> Pane option"
where
  "Pane_Duplicate pdup p nameAsCopy w =
     (case p of
        None \<Rightarrow> Inl NilDeref
      | Some (SplitLinePtr a) \<Rightarrow>
          (case new_node zeroNode (Errorf ''This actually should never be called...'' w) of
             (w1, b) \<Rightarrow> Inr (w1, Some (SplitLinePtr b)))
      | Some (PaneObj a) \<Rightarrow>
          (case new_pane (pdup (pane_objs w a) nameAsCopy) w of
             (w1, q) \<Rightarrow> Inr (w1, Some q)))"

text \<open>
  Modelled from the spec: the type \<open>EmptyPane\<close>, which is not in wm.go. \<open>&EmptyPane{}\<close>
  and \<open>NewEmptyPane()\<close> give a fresh object of this type; the spec calls it an inert
  placeholder, so it does not take the keyboard focus.
\<close>

definition EmptyPane_zero :: pane_obj where
  "EmptyPane_zero = \<lparr>ptype = ''*main.EmptyPane'', pname = ''Empty'', canFocus = False\<rparr>"

subsection \<open>Assignments to the fields of a node\<close>

definition set_Pane :: "addr \<Rightarrow> Pane option \<Rightarrow> 'a heap_scheme \<Rightarrow> 'a heap_scheme" where
  "set_Pane a p w = w\<lparr>nodes := (nodes w)(a := (nodes w a)\<lparr>Pane := p\<rparr>)\<rparr>"

definition set_SplitLine :: "addr \<Rightarrow> SplitLine \<Rightarrow> 'a heap_scheme \<Rightarrow> 'a heap_scheme" where
  "set_SplitLine a sl w = w\<lparr>nodes := (nodes w)(a := (nodes w a)\<lparr>SplitLine := sl\<rparr>)\<rparr>"

definition set_Child0 :: "addr \<Rightarrow> addr option \<Rightarrow> 'a heap_scheme \<Rightarrow> 'a heap_scheme" where
  "set_Child0 a c w =
     w\<lparr>nodes := (nodes w)(a := (nodes w a)\<lparr>Children := (c, snd (Children (nodes w a)))\<rparr>)\<rparr>"

definition set_Child1 :: "addr \<Rightarrow> addr option \<Rightarrow> 'a heap_scheme \<Rightarrow> 'a heap_scheme" where
  "set_Child1 a c w =
     w\<lparr>nodes := (nodes w)(a := (nodes w a)\<lparr>Children := (fst (Children (nodes w a)), c)\<rparr>)\<rparr>"

subsection \<open>DisplayNode.Duplicate\<close>

partial_function (option) Duplicate ::
  "(pane_obj \<Rightarrow> bool \<Rightarrow> pane_obj) \<Rightarrow> addr option \<Rightarrow> 'a heap_scheme \<Rightarrow>
   (error + 'a heap_scheme \<times> addr option) option"
where
  "Duplicate pdup d w =
     (case d of
        None \<Rightarrow> Some (Inl NilDeref)
      | Some a \<Rightarrow>
          (case new_node zeroNode w of (w1, dupe) \<Rightarrow>
            (case (if Pane (nodes w1 a) \<noteq> None
                   then (case Pane_Duplicate pdup (Pane (nodes w1 a)) False w1 of
                           Inl e \<Rightarrow> Inl e
                         | Inr (w2, p) \<Rightarrow> Inr (set_Pane dupe p w2))
                   else Inr w1) of
               Inl e \<Rightarrow> Some (Inl e)
             | Inr w2 \<Rightarrow>
                 (case set_SplitLine dupe (SplitLine (nodes w2 a)) w2 of w3 \<Rightarrow>
                   if Axis (SplitLine (nodes w3 a)) \<noteq> SplitAxisNone then
                     Option.bind (Duplicate pdup (fst (Children (nodes w3 a))) w3) (\<lambda>r0.
                       case r0 of
                         Inl e \<Rightarrow> Some (Inl e)
                       | Inr (w4, c0) \<Rightarrow>
                           (case set_Child0 dupe c0 w4 of w5 \<Rightarrow>
                             Option.bind (Duplicate pdup (snd (Children (nodes w5 a))) w5) (\<lambda>r1.
                               case r1 of
                                 Inl e \<Rightarrow> Some (Inl e)
                               | Inr (w6, c1) \<Rightarrow> Some (Inr (set_Child1 dupe c1 w6, Some dupe)))))
                   else Some (Inr (w3, Some dupe))))))"

subsection \<open>DisplayNode.ParentNodeForPane\<close>

text \<open>\<open>c != nil && c.Pane == pane\<close> for a child pointer \<open>c\<close>.\<close>

definition child_holds :: "(addr \<Rightarrow> DisplayNode) \<Rightarrow> addr option \<Rightarrow> Pane option \<Rightarrow> bool" where
  "child_holds h c pane = (case c of None \<Rightarrow> False | Some b \<Rightarrow> Pane (h b) = pane)"

partial_function (option) ParentNodeForPane ::
  "(addr \<Rightarrow> DisplayNode) \<Rightarrow> addr option \<Rightarrow> Pane option \<Rightarrow> (error + addr option \<times> int) option"
where
  "ParentNodeForPane h d pane =
     (case d of
        None \<Rightarrow> Some (Inr (None, - 1))
      | Some a \<Rightarrow>
          if child_holds h (fst (Children (h a))) pane then Some (Inr (d, 0))
          else if child_holds h (snd (Children (h a))) pane then Some (Inr (d, 1))
          else Option.bind (ParentNodeForPane h (fst (Children (h a))) pane) (\<lambda>r0.
            case r0 of
              Inl e \<Rightarrow> Some (Inl e)
            | Inr (c0, idx) \<Rightarrow>
                if c0 \<noteq> None then Some (Inr (c0, idx))
                else ParentNodeForPane h (snd (Children (h a))) pane))"

subsection \<open>DisplayNode.VisitPanes and DisplayNode.VisitPanesWithBounds\<close>

text \<open>
  The callback of a traversal is a closure that updates the variables it captures:
  a function on a state \<open>'s\<close> that may panic. The callbacks of wm.go that are modelled
  below do not assign to the nodes, so the traversal reads one store throughout.
\<close>

partial_function (option) VisitPanes ::
  "(addr \<Rightarrow> DisplayNode) \<Rightarrow> addr option \<Rightarrow> (Pane option \<Rightarrow> 's \<Rightarrow> error + 's) \<Rightarrow> 's \<Rightarrow>
   (error + 's) option"
where
  "VisitPanes h d visit s =
     (case d of
        None \<Rightarrow> Some (Inl NilDeref)
      | Some a \<Rightarrow>
          if Axis (SplitLine (h a)) = SplitAxisNone then Some (visit (Pane (h a)) s)
          else Option.bind (VisitPanes h (fst (Children (h a))) visit s) (\<lambda>r0.
            case r0 of
              Inl e \<Rightarrow> Some (Inl e)
            | Inr s1 \<Rightarrow>
                (case visit (Some (SplitLinePtr a)) s1 of
                   Inl e \<Rightarrow> Some (Inl e)
                 | Inr s2 \<Rightarrow> VisitPanes h (snd (Children (h a))) visit s2)))"

text \<open>
  \<open>Extent2D\<close> with its \<open>SplitX\<close> and \<open>SplitY\<close>, and the platform's DPI scale behind
  \<open>splitLineWidth()\<close>, are not in wm.go: they are parameters, and \<open>'e\<close> is \<open>Extent2D\<close>.
  \<open>env\<close> is what the traversal reads from its surroundings: these and the store.
  \<open>bounds\<close> are the four extents that the traversal passes down and hands to \<open>visit\<close>.
\<close>

record 'e env =
  store :: "addr \<Rightarrow> DisplayNode"
  Extent2D_SplitX :: "'e \<Rightarrow> float32 \<Rightarrow> int \<Rightarrow> 'e \<times> 'e \<times> 'e"
  Extent2D_SplitY :: "'e \<Rightarrow> float32 \<Rightarrow> int \<Rightarrow> 'e \<times> 'e \<times> 'e"
  splitLineWidth :: int

record 'e bounds =
  framebufferExtent :: 'e
  displayExtent :: 'e
  parentDisplayExtent :: 'e
  fullDisplayExtent :: 'e

text \<open>The three results of a split: the part before the gutter, the gutter, the part after.\<close>

definition ext0 :: "'e \<times> 'e \<times> 'e \<Rightarrow> 'e" where
  "ext0 t = fst t"

definition exts :: "'e \<times> 'e \<times> 'e \<Rightarrow> 'e" where
  "exts t = fst (snd t)"

definition ext1 :: "'e \<times> 'e \<times> 'e \<Rightarrow> 'e" where
  "ext1 t = snd (snd t)"

text \<open>The extents of a child or of the divider: \<open>(f, d, displayExtent, fullDisplayExtent)\<close>.\<close>

definition sub_bounds :: "'e \<Rightarrow> 'e \<Rightarrow> 'e bounds \<Rightarrow> 'e bounds" where
  "sub_bounds f d b =
     \<lparr>framebufferExtent = f, displayExtent = d, parentDisplayExtent = displayExtent b,
      fullDisplayExtent = fullDisplayExtent b\<rparr>"

partial_function (option) VisitPanesWithBounds ::
  "'e env \<Rightarrow> (addr option \<Rightarrow> addr option) \<Rightarrow> addr option \<Rightarrow> 'e bounds \<Rightarrow>
   ('e bounds \<Rightarrow> Pane option \<Rightarrow> 's \<Rightarrow> error + 's) \<Rightarrow> 's \<Rightarrow> (error + 's) option"
where
  "VisitPanesWithBounds g nodeFilter d0 b visit s =
     (case nodeFilter d0 of
        None \<Rightarrow> Some (Inl NilDeref)
      | Some a \<Rightarrow>
          if Axis (SplitLine (store g a)) = SplitAxisNone then
            Some (visit b (Pane (store g a)) s)
          else if Axis (SplitLine (store g a)) = SplitAxisX then
            (let f = Extent2D_SplitX g (framebufferExtent b) (Pos (SplitLine (store g a)))
                       (splitLineWidth g);
                 d = Extent2D_SplitX g (displayExtent b) (Pos (SplitLine (store g a)))
                       (splitLineWidth g)
             in Option.bind (VisitPanesWithBounds g nodeFilter (fst (Children (store g a)))
                               (sub_bounds (ext0 f) (ext0 d) b) visit s) (\<lambda>r0.
                  case r0 of
                    Inl e \<Rightarrow> Some (Inl e)
                  | Inr s1 \<Rightarrow>
                      (case visit (sub_bounds (exts f) (exts d) b) (Some (SplitLinePtr a)) s1 of
                         Inl e \<Rightarrow> Some (Inl e)
                       | Inr s2 \<Rightarrow>
                           VisitPanesWithBounds g nodeFilter (snd (Children (store g a)))
                             (sub_bounds (ext1 f) (ext1 d) b) visit s2)))
          else if Axis (SplitLine (store g a)) = SplitAxisY then
            (let f = Extent2D_SplitY g (framebufferExtent b) (Pos (SplitLine (store g a)))
                       (splitLineWidth g);
                 d = Extent2D_SplitY g (displayExtent b) (Pos (SplitLine (store g a)))
                       (splitLineWidth g)
             in Option.bind (VisitPanesWithBounds g nodeFilter (fst (Children (store g a)))
                               (sub_bounds (ext0 f) (ext0 d) b) visit s) (\<lambda>r0.
                  case r0 of
                    Inl e \<Rightarrow> Some (Inl e)
                  | Inr s1 \<Rightarrow>
                      (case visit (sub_bounds (exts f) (exts d) b) (Some (SplitLinePtr a)) s1 of
                         Inl e \<Rightarrow> Some (Inl e)
                       | Inr s2 \<Rightarrow>
                           VisitPanesWithBounds g nodeFilter (snd (Children (store g a)))
                             (sub_bounds (ext1 f) (ext1 d) b) visit s2)))
          else Some (Inr s))"

text \<open>The recursion equations are the code equations of the partial functions.\<close>

declare NodeForPane.simps [code]
declare ParentNodeForPane.simps [code]
declare Duplicate.simps [code]
declare VisitPanes.simps [code]
declare VisitPanesWithBounds.simps [code]

section \<open>The window manager\<close>

subsection \<open>State\<close>

text \<open>
  The closures of wm.go are values of datatypes: \<open>pick_handler\<close> are the functions that
  \<open>wm.handlePanePick\<close> can hold, \<open>button_callback\<close> and \<open>show_fn\<close> are the two callbacks
  that \<open>wmInit\<close> registers with each button of \<open>wm.configButtons\<close>.
\<close>

datatype pick_handler =
    CopyPick
  | ExchangePick
  | SplitPick SplitType
  | DeletePick
  | SetPicked "Pane option"
  | ButtonPick pick_handler

datatype button_callback = CopyButton | ExchangeButton | SplitButton SplitType | DeleteButton

datatype show_fn = ShowIfRootHasChild | ShowAlways

record ModalButtonSet =
  active :: string
  names :: "string list"
  callbacks :: "button_callback list"
  show_fns :: "show_fn list"

record world = heap +
  DisplayRoot :: "addr option"
  paneFirstPick :: "Pane option"
  handlePanePick :: "pick_handler option"
  paneCreatePrompt :: string
  paneConfigHelpText :: string
  configButtons :: ModalButtonSet
  keyboardFocusPane :: "Pane option"

subsection \<open>The pick handlers of wmInit\<close>

definition copyPick ::
  "(pane_obj \<Rightarrow> bool \<Rightarrow> pane_obj) \<Rightarrow> Pane option \<Rightarrow> world \<Rightarrow> (world \<times> bool) res"
where
  "copyPick pdup pane w =
     (if paneFirstPick w = None then
        ret (w\<lparr>paneFirstPick := pane,
                paneConfigHelpText := ''Select destination for copy''\<rparr>, False)
      else
        bindR (NodeForPane (nodes w) (DisplayRoot w) pane) (\<lambda>node.
        bindR (lift (Pane_Duplicate pdup (paneFirstPick w) True w)) (\<lambda>(w1, p).
          case node of
            None \<Rightarrow> panic NilDeref
          | Some a \<Rightarrow>
              ret ((set_Pane a p w1)\<lparr>paneFirstPick := None, paneConfigHelpText := []\<rparr>, True))))"

definition exchangePick :: "Pane option \<Rightarrow> world \<Rightarrow> (world \<times> bool) res" where
  "exchangePick pane w =
     (if paneFirstPick w = None then
        ret (w\<lparr>paneFirstPick := pane,
                paneConfigHelpText := ''Select second window for exchange''\<rparr>, False)
      else
        bindR (NodeForPane (nodes w) (DisplayRoot w) (paneFirstPick w)) (\<lambda>n0.
        bindR (NodeForPane (nodes w) (DisplayRoot w) pane) (\<lambda>n1.
        bindR (if pane \<noteq> paneFirstPick w then
                 (case (n0, n1) of
                    (Some a0, Some a1) \<Rightarrow>
                      ret (set_Pane a1 (Pane (nodes w a0)) (set_Pane a0 (Pane (nodes w a1)) w))
                  | _ \<Rightarrow> panic NilDeref)
               else ret w) (\<lambda>w1.
          ret (w1\<lparr>paneFirstPick := None, paneConfigHelpText := []\<rparr>, True)))))"

definition splitPick :: "SplitType \<Rightarrow> Pane option \<Rightarrow> world \<Rightarrow> (world \<times> bool) res" where
  "splitPick axis pane w =
     bindR (NodeForPane (nodes w) (DisplayRoot w) pane) (\<lambda>node.
       case node of
         None \<Rightarrow> panic NilDeref
       | Some a \<Rightarrow>
           (case new_pane EmptyPane_zero w of (w1, ep) \<Rightarrow>
           (case new_node (zeroNode\<lparr>Pane := Some ep\<rparr>) w1 of (w2, c0) \<Rightarrow>
           (case new_node (zeroNode\<lparr>Pane := pane\<rparr>) (set_Child0 a (Some c0) w2) of (w3, c1) \<Rightarrow>
              ret ((set_SplitLine a \<lparr>Pos = 1 / 2, Axis = axis\<rparr>
                      (set_Pane a None (set_Child1 a (Some c1) w3)))
                     \<lparr>paneConfigHelpText := []\<rparr>, True)))))"

text \<open>\<open>node.Children[other]\<close>, an index into an array of two.\<close>

definition child_at :: "DisplayNode \<Rightarrow> int \<Rightarrow> error + addr option" where
  "child_at n i =
     (if i = 0 then Inr (fst (Children n))
      else if i = 1 then Inr (snd (Children n))
      else Inl IndexOutOfRange)"

definition deletePick :: "Pane option \<Rightarrow> world \<Rightarrow> (world \<times> bool) res" where
  "deletePick pane w =
     bindR (ParentNodeForPane (nodes w) (DisplayRoot w) pane) (\<lambda>(node, idx).
       case node of
         None \<Rightarrow> panic NilDeref
       | Some a \<Rightarrow>
           (case child_at (nodes w a) (idx XOR 1) of
              Inl e \<Rightarrow> panic e
            | Inr None \<Rightarrow> panic NilDeref
            | Inr (Some c) \<Rightarrow>
                ret (w\<lparr>nodes := (nodes w)(a := nodes w c), paneConfigHelpText := []\<rparr>, True)))"

text \<open>\<open>setPicked(newPane)\<close> of \<open>wmDrawUI\<close>.\<close>

definition setPicked :: "Pane option \<Rightarrow> Pane option \<Rightarrow> world \<Rightarrow> (world \<times> bool) res" where
  "setPicked newPane pane w =
     bindR (NodeForPane (nodes w) (DisplayRoot w) pane) (\<lambda>node.
       case node of
         None \<Rightarrow> panic NilDeref
       | Some a \<Rightarrow>
           ret ((set_Pane a newPane w)\<lparr>paneCreatePrompt := [], paneConfigHelpText := []\<rparr>, True))"

text \<open>
  Calling a pick handler. \<open>ButtonPick callback\<close> is the closure that
  \<open>ModalButtonSet.Draw\<close> installs: it calls \<open>callback\<close> and clears \<open>active\<close> on success.
\<close>

fun call_pick ::
  "(pane_obj \<Rightarrow> bool \<Rightarrow> pane_obj) \<Rightarrow> pick_handler \<Rightarrow> Pane option \<Rightarrow> world \<Rightarrow> (world \<times> bool) res"
where
  "call_pick pdup CopyPick pane w = copyPick pdup pane w"
| "call_pick pdup ExchangePick pane w = exchangePick pane w"
| "call_pick pdup (SplitPick axis) pane w = splitPick axis pane w"
| "call_pick pdup DeletePick pane w = deletePick pane w"
| "call_pick pdup (SetPicked newPane) pane w = setPicked newPane pane w"
| "call_pick pdup (ButtonPick callback) pane w =
     bindR (call_pick pdup callback pane w) (\<lambda>(w1, result).
       ret (if result then w1\<lparr>configButtons := (configButtons w1)\<lparr>active := []\<rparr>\<rparr> else w1,
            result))"

subsection \<open>ModalButtonSet and wmInit\<close>

definition Add :: "string \<Rightarrow> button_callback \<Rightarrow> show_fn \<Rightarrow> ModalButtonSet \<Rightarrow> ModalButtonSet" where
  "Add text selected sh m =
     m\<lparr>names := names m @ [text], callbacks := callbacks m @ [selected],
       show_fns := show_fns m @ [sh]\<rparr>"

text \<open>The buttons of \<open>wmInit\<close>, in the order of its calls of \<open>wm.configButtons.Add\<close>.\<close>

definition wmInit :: "world \<Rightarrow> world" where
  "wmInit w =
     w\<lparr>configButtons :=
         Add ''Delete'' DeleteButton ShowIfRootHasChild
        (Add ''Split Vertically'' (SplitButton SplitAxisY) ShowAlways
        (Add ''Split Horizontally'' (SplitButton SplitAxisX) ShowAlways
        (Add ''Exchange'' ExchangeButton ShowIfRootHasChild
        (Add ''Copy'' CopyButton ShowIfRootHasChild (configButtons w)))))\<rparr>"

text \<open>
  The \<open>show\<close> callbacks: \<open>positionConfig.DisplayRoot.Children[0] != nil\<close> for Copy, Exchange
  and Delete, \<open>true\<close> for the two splits.
\<close>

fun call_show :: "show_fn \<Rightarrow> world \<Rightarrow> error + bool" where
  "call_show ShowIfRootHasChild w =
     (case DisplayRoot w of
        None \<Rightarrow> Inl NilDeref
      | Some r \<Rightarrow> Inr (fst (Children (nodes w r)) \<noteq> None))"
| "call_show ShowAlways w = Inr True"

text \<open>The \<open>selected\<close> callbacks: each sets the help text and returns its pick handler.\<close>

fun call_selected :: "button_callback \<Rightarrow> world \<Rightarrow> world \<times> pick_handler" where
  "call_selected CopyButton w = (w\<lparr>paneConfigHelpText := ''Select window to copy''\<rparr>, CopyPick)"
| "call_selected ExchangeButton w =
     (w\<lparr>paneConfigHelpText := ''Select first window for exchange''\<rparr>, ExchangePick)"
| "call_selected (SplitButton axis) w =
     (w\<lparr>paneConfigHelpText := ''Select window to split''\<rparr>, SplitPick axis)"
| "call_selected DeleteButton w =
     (w\<lparr>paneConfigHelpText := ''Select window to delete''\<rparr>, DeletePick)"

text \<open>
  \<open>ModalButtonSet.Draw\<close>. What imgui reports in this frame are the two parameters
  \<open>button\<close> (the result of \<open>imgui.Button(name)\<close>) and \<open>itemClicked\<close> (that of
  \<open>imgui.IsItemClicked()\<close> after the button \<open>name\<close>). The result lists, next to the new
  state, the names of the buttons that were drawn.
\<close>

fun Draw_loop ::
  "(string \<Rightarrow> bool) \<Rightarrow> (string \<Rightarrow> bool) \<Rightarrow> (string \<times> button_callback \<times> show_fn) list \<Rightarrow>
   world \<times> string list \<Rightarrow> error + world \<times> string list"
where
  "Draw_loop button itemClicked [] (w, drawn) = Inr (w, drawn)"
| "Draw_loop button itemClicked ((name, cb, sh) # rest) (w, drawn) =
     (case call_show sh w of
        Inl e \<Rightarrow> Inl e
      | Inr False \<Rightarrow> Draw_loop button itemClicked rest (w, drawn)
      | Inr True \<Rightarrow>
          if active (configButtons w) = name then
            Draw_loop button itemClicked rest
              (if itemClicked name
               then w\<lparr>handlePanePick := None,
                      configButtons := (configButtons w)\<lparr>active := []\<rparr>\<rparr>
               else w, drawn @ [name])
          else if button name then
            (case call_selected cb
                    (w\<lparr>configButtons := (configButtons w)\<lparr>active := name\<rparr>,
                       paneFirstPick := None\<rparr>) of
               (w1, callback) \<Rightarrow>
                 Draw_loop button itemClicked rest
                   (w1\<lparr>handlePanePick := Some (ButtonPick callback)\<rparr>, drawn @ [name]))
          else Draw_loop button itemClicked rest (w, drawn @ [name]))"

definition Draw :: "(string \<Rightarrow> bool) \<Rightarrow> (string \<Rightarrow> bool) \<Rightarrow> world \<Rightarrow> error + world \<times> string list" where
  "Draw button itemClicked w =
     Draw_loop button itemClicked
       (zip (names (configButtons w)) (zip (callbacks (configButtons w)) (show_fns (configButtons w))))
       (w, [])"

subsection \<open>wmPaneIsPresent and the keyboard focus in wmDrawPanes\<close>

definition present_visit :: "Pane option \<Rightarrow> Pane option \<Rightarrow> bool \<Rightarrow> error + bool" where
  "present_visit pane p found = Inr (if p = pane then True else found)"

definition wmPaneIsPresent :: "Pane option \<Rightarrow> world \<Rightarrow> bool res" where
  "wmPaneIsPresent pane w = VisitPanes (nodes w) (DisplayRoot w) (present_visit pane) False"

definition cli_visit :: "Pane option \<Rightarrow> world \<Rightarrow> error + world" where
  "cli_visit p w = Inr (if isCLIPane w p then w\<lparr>keyboardFocusPane := p\<rparr> else w)"

definition focus_visit :: "Pane option \<Rightarrow> world \<Rightarrow> error + world" where
  "focus_visit p w =
     (case CanTakeKeyboardFocus w p of
        Inl e \<Rightarrow> Inl e
      | Inr c \<Rightarrow> Inr (if c then w\<lparr>keyboardFocusPane := p\<rparr> else w))"

text \<open>The first statements of \<open>wmDrawPanes\<close>, which settle \<open>wm.keyboardFocusPane\<close>.\<close>

definition wmDrawPanes_focus :: "world \<Rightarrow> world res" where
  "wmDrawPanes_focus w =
     bindR (wmPaneIsPresent (keyboardFocusPane w) w) (\<lambda>present.
       case (if \<not> present then w\<lparr>keyboardFocusPane := None\<rparr> else w) of w1 \<Rightarrow>
         if keyboardFocusPane w1 = None then
           bindR (VisitPanes (nodes w1) (DisplayRoot w1) cli_visit w1) (\<lambda>w2.
             if keyboardFocusPane w2 = None
             then VisitPanes (nodes w2) (DisplayRoot w2) focus_visit w2
             else ret w2)
         else ret w1)"

text \<open>
  The statement of \<open>wmDrawPanes\<close> that hands a click to the armed pick handler.
  \<open>clicked\<close> is \<open>imgui.IsMouseClicked(mouseButtonPrimary)\<close>, \<open>mousePane\<close> the pane under
  the mouse.
\<close>

definition wmDrawPanes_pick ::
  "(pane_obj \<Rightarrow> bool \<Rightarrow> pane_obj) \<Rightarrow> bool \<Rightarrow> Pane option \<Rightarrow> world \<Rightarrow> world res"
where
  "wmDrawPanes_pick pdup clicked mousePane w =
     (case handlePanePick w of
        None \<Rightarrow> ret w
      | Some handler \<Rightarrow>
          if clicked \<and> mousePane \<noteq> None then
            (if \<not> isSplitLine mousePane then
               bindR (call_pick pdup handler mousePane w) (\<lambda>(w1, done).
                 ret (if done then w1\<lparr>handlePanePick := None\<rparr> else w1))
             else ret w)
          else ret w)"

section \<open>What the traversals compute on a well-formed tree\<close>

text \<open>
  \<open>visit_list t\<close> is the in-order sequence of a tree: for a leaf its pane, for an
  internal node the sequence of the left subtree, the node's own split line, the
  sequence of the right subtree. \<open>bounds_list\<close> is that sequence with the extents that
  the splits give. \<open>foldE\<close> calls a callback on each element of a list in turn.
\<close>

fun visit_list :: "ntree \<Rightarrow> Pane option list" where
  "visit_list (NLeaf a p) = [Some p]"
| "visit_list (NNode a sl l r) = visit_list l @ [Some (SplitLinePtr a)] @ visit_list r"

fun foldE :: "('x \<Rightarrow> 's \<Rightarrow> error + 's) \<Rightarrow> 'x list \<Rightarrow> 's \<Rightarrow> error + 's" where
  "foldE f [] s = Inr s"
| "foldE f (x # xs) s = (case f x s of Inl e \<Rightarrow> Inl e | Inr s1 \<Rightarrow> foldE f xs s1)"

definition split_of :: "'e env \<Rightarrow> SplitLine \<Rightarrow> 'e \<Rightarrow> 'e \<times> 'e \<times> 'e" where
  "split_of g sl e =
     (if Axis sl = SplitAxisX then Extent2D_SplitX g e (Pos sl) (splitLineWidth g)
      else Extent2D_SplitY g e (Pos sl) (splitLineWidth g))"

fun bounds_list :: "'e env \<Rightarrow> ntree \<Rightarrow> 'e bounds \<Rightarrow> ('e bounds \<times> Pane option) list" where
  "bounds_list g (NLeaf a p) b = [(b, Some p)]"
| "bounds_list g (NNode a sl l r) b =
     bounds_list g l
       (sub_bounds (ext0 (split_of g sl (framebufferExtent b))) (ext0 (split_of g sl (displayExtent b))) b) @
     [(sub_bounds (exts (split_of g sl (framebufferExtent b))) (exts (split_of g sl (displayExtent b))) b,
       Some (SplitLinePtr a))] @
     bounds_list g r
       (sub_bounds (ext1 (split_of g sl (framebufferExtent b))) (ext1 (split_of g sl (displayExtent b))) b)"

definition identity_filter :: "addr option \<Rightarrow> addr option" where
  "identity_filter node = node"

definition log_pane :: "Pane option \<Rightarrow> Pane option list \<Rightarrow> error + Pane option list" where
  "log_pane p l = Inr (l @ [p])"

definition log_bounds ::
  "'e bounds \<Rightarrow> Pane option \<Rightarrow> ('e bounds \<times> Pane option) list \<Rightarrow> error + ('e bounds \<times> Pane option) list"
where
  "log_bounds b p l = Inr (l @ [(b, p)])"

text \<open>
  The choice of the keyboard focus: the last pane of a sequence that is a \<open>*CLIPane\<close>,
  else the last one that can take the keyboard focus, else nil.
\<close>

definition last_such :: "('x \<Rightarrow> bool) \<Rightarrow> 'x list \<Rightarrow> 'x option" where
  "last_such P xs = find P (rev xs)"

definition can_focus :: "'a heap_scheme \<Rightarrow> Pane option \<Rightarrow> bool" where
  "can_focus w p = (CanTakeKeyboardFocus w p = Inr True)"

definition focus_choice :: "world \<Rightarrow> Pane option list \<Rightarrow> Pane option" where
  "focus_choice w xs =
     (case last_such (isCLIPane w) xs of
        Some p \<Rightarrow> p
      | None \<Rightarrow> (case last_such (can_focus w) xs of Some p \<Rightarrow> p | None \<Rightarrow> None))"

section \<open>A concrete display\<close>

text \<open>
  A store with five nodes: the root 0 is split along X into the leaf 1 and the node 2,
  which is split along Y into the leaves 3 and 4. The leaves hold the panes 0, 1 and 2.
  The pane objects 1 and 3 have the same contents, and pane 3 is not in the tree.
\<close>

definition ex_nodes :: "addr \<Rightarrow> DisplayNode" where
  "ex_nodes =
     (\<lambda>a. zeroNode)
     (0 := \<lparr>Pane = None, SplitLine = \<lparr>Pos = 1 / 2, Axis = SplitAxisX\<rparr>, Children = (Some 1, Some 2)\<rparr>,
      1 := \<lparr>Pane = Some (PaneObj 0), SplitLine = \<lparr>Pos = 0, Axis = SplitAxisNone\<rparr>,
            Children = (None, None)\<rparr>,
      2 := \<lparr>Pane = None, SplitLine = \<lparr>Pos = 1 / 4, Axis = SplitAxisY\<rparr>, Children = (Some 3, Some 4)\<rparr>,
      3 := \<lparr>Pane = Some (PaneObj 1), SplitLine = \<lparr>Pos = 0, Axis = SplitAxisNone\<rparr>,
            Children = (None, None)\<rparr>,
      4 := \<lparr>Pane = Some (PaneObj 2), SplitLine = \<lparr>Pos = 0, Axis = SplitAxisNone\<rparr>,
            Children = (None, None)\<rparr>)"

definition ex_panes :: "addr \<Rightarrow> pane_obj" where
  "ex_panes =
     (\<lambda>a. EmptyPane_zero)
     (0 := \<lparr>ptype = ''*main.FlightStripPane'', pname = ''Strips'', canFocus = True\<rparr>,
      1 := \<lparr>ptype = ''*main.RadarScopePane'', pname = ''Scope'', canFocus = False\<rparr>,
      2 := \<lparr>ptype = ''*main.NotesViewPane'', pname = ''Notes'', canFocus = True\<rparr>,
      3 := \<lparr>ptype = ''*main.RadarScopePane'', pname = ''Scope'', canFocus = False\<rparr>)"

definition ex_buttons :: ModalButtonSet where
  "ex_buttons = \<lparr>active = [], names = [], callbacks = [], show_fns = []\<rparr>"

definition ex_world :: world where
  "ex_world =
     \<lparr>nodes = ex_nodes, next_node = 5, pane_objs = ex_panes, next_pane = 4, errlog = [],
      DisplayRoot = Some 0, paneFirstPick = None, handlePanePick = None,
      paneCreatePrompt = [], paneConfigHelpText = [], configButtons = ex_buttons,
      keyboardFocusPane = None\<rparr>"

definition ex_tree :: ntree where
  "ex_tree =
     NNode 0 \<lparr>Pos = 1 / 2, Axis = SplitAxisX\<rparr> (NLeaf 1 (PaneObj 0))
       (NNode 2 \<lparr>Pos = 1 / 4, Axis = SplitAxisY\<rparr> (NLeaf 3 (PaneObj 1)) (NLeaf 4 (PaneObj 2)))"

section \<open>Properties\<close>

lemma find_leaf_None: "find_leaf t q = None \<longleftrightarrow> q \<notin> set (leaf_panes t)"
  by (induction t) (auto split: option.splits)

lemma find_leaf_Some: "repr h t \<Longrightarrow> find_leaf t q = Some b \<Longrightarrow> Pane (h b) = Some q \<and> b \<in> set (addrs t)"
  by (induction t) (auto split: option.splits if_splits)

lemma NodeForPane_repr:
  "repr h t \<Longrightarrow> NodeForPane h (Some (root_of t)) (Some q) = Some (Inr (find_leaf t q))"
proof (induction t)
  case (NLeaf a p)
  then show ?case
    by (subst NodeForPane.simps) auto
next
  case (NNode a sl l r)
  then show ?case
    by (subst NodeForPane.simps) (auto split: option.splits)
qed


subsection \<open>The traversals\<close>

lemma foldE_append:
  "foldE f (xs @ ys) s = (case foldE f xs s of Inl e \<Rightarrow> Inl e | Inr s1 \<Rightarrow> foldE f ys s1)"
  by (induction xs arbitrary: s) (auto split: sum.splits)

lemma VisitPanes_repr:
  "repr h t \<Longrightarrow> VisitPanes h (Some (root_of t)) visit s = Some (foldE visit (visit_list t) s)"
proof (induction t arbitrary: s)
  case (NLeaf a p)
  then show ?case
    by (subst VisitPanes.simps) (simp split: sum.splits)
next
  case (NNode a sl l r)
  from NNode.prems have ax: "Axis (SplitLine (h a)) \<noteq> SplitAxisNone"
    by auto
  from NNode.prems have ch: "Children (h a) = (Some (root_of l), Some (root_of r))"
    and rl: "repr h l" and rr: "repr h r"
    by auto
  show ?case
    by (subst VisitPanes.simps)
       (simp add: ax ch NNode.IH(1) [OF rl] NNode.IH(2) [OF rr] foldE_append split: sum.splits)
qed

lemma VisitPanesWithBounds_repr:
  "repr (store g) t \<Longrightarrow>
   VisitPanesWithBounds g identity_filter (Some (root_of t)) b visit s =
   Some (foldE (\<lambda>(b, p). visit b p) (bounds_list g t b) s)"
proof (induction t arbitrary: s b)
  case (NLeaf a p)
  then show ?case
    by (subst VisitPanesWithBounds.simps) (simp add: identity_filter_def split: sum.splits)
next
  case (NNode a sl l r)
  from NNode.prems have ax: "Axis (SplitLine (store g a)) = SplitAxisX \<or> Axis (SplitLine (store g a)) = SplitAxisY"
    and sl: "SplitLine (store g a) = sl"
    by auto
  from NNode.prems have ch: "Children (store g a) = (Some (root_of l), Some (root_of r))"
    and rl: "repr (store g) l" and rr: "repr (store g) r"
    by auto
  have id: "identity_filter (Some a) = Some a"
    by (simp add: identity_filter_def)
  from ax show ?case
  proof
    assume x: "Axis (SplitLine (store g a)) = SplitAxisX"
    show ?thesis
      apply (subst VisitPanesWithBounds.simps)
      using x sl
      apply (simp add: id ch NNode.IH(1) [OF rl] NNode.IH(2) [OF rr] foldE_append split_of_def Let_def split: sum.splits)
      done
  next
    assume y: "Axis (SplitLine (store g a)) = SplitAxisY"
    show ?thesis
      apply (subst VisitPanesWithBounds.simps)
      using y sl
      apply (simp add: id ch NNode.IH(1) [OF rl] NNode.IH(2) [OF rr] foldE_append split_of_def Let_def split: sum.splits)
      done
  qed
qed

lemma bounds_list_panes: "map snd (bounds_list g t b) = visit_list t"
  by (induction t arbitrary: b) auto

lemma foldE_log_pane: "foldE log_pane xs l = Inr (l @ xs)"
  by (induction xs arbitrary: l) (auto simp: log_pane_def)

lemma foldE_log_bounds: "foldE (\<lambda>(b, p). log_bounds b p) xs l = Inr (l @ xs)"
  by (induction xs arbitrary: l) (auto simp: log_bounds_def)

lemma foldE_ignore_bounds: "foldE (\<lambda>(b, p). visit p) xs s = foldE visit (map snd xs) s"
  by (induction xs arbitrary: s) (auto split: sum.splits)

subsection \<open>The keyboard focus\<close>

lemma last_such_snoc:
  "last_such P (xs @ [x]) = (if P x then Some x else last_such P xs)"
  by (simp add: last_such_def)

lemma last_such_Nil: "last_such P [] = None"
  by (simp add: last_such_def)

lemma visit_list_Some: "x \<in> set (visit_list t) \<Longrightarrow> x \<noteq> None"
  by (induction t) auto

lemma foldE_present: "foldE (present_visit pane) xs found = Inr (found \<or> pane \<in> set xs)"
  by (induction xs arbitrary: found) (auto simp: present_visit_def)

lemma isCLIPane_focus [simp]: "isCLIPane (w\<lparr>keyboardFocusPane := p\<rparr>) = isCLIPane w"
  by (rule ext) (simp add: isCLIPane_def split: option.splits Pane.splits)

lemma can_focus_focus [simp]: "can_focus (w\<lparr>keyboardFocusPane := p\<rparr>) = can_focus w"
  by (rule ext) (simp add: can_focus_def CanTakeKeyboardFocus_def split: option.splits Pane.splits)

lemma foldE_cli:
  "foldE cli_visit xs w =
   Inr (case last_such (isCLIPane w) xs of None \<Rightarrow> w | Some p \<Rightarrow> w\<lparr>keyboardFocusPane := p\<rparr>)"
proof (induction xs rule: rev_induct)
  case Nil
  then show ?case by (simp add: last_such_Nil)
next
  case (snoc x xs)
  then show ?case
    by (cases "last_such (isCLIPane w) xs")
       (simp_all add: foldE_append last_such_snoc cli_visit_def)
qed

lemma foldE_focus:
  "\<forall>x \<in> set xs. x \<noteq> None \<Longrightarrow>
   foldE focus_visit xs w =
   Inr (case last_such (can_focus w) xs of None \<Rightarrow> w | Some p \<Rightarrow> w\<lparr>keyboardFocusPane := p\<rparr>)"
proof (induction xs rule: rev_induct)
  case Nil
  then show ?case by (simp add: last_such_Nil)
next
  case (snoc x xs)
  then obtain p where x: "x = Some p" by auto
  have c: "CanTakeKeyboardFocus w' x = Inr (can_focus w' x)" for w' :: world
    by (cases p) (auto simp: x can_focus_def CanTakeKeyboardFocus_def)
  from snoc show ?case
    by (cases "last_such (can_focus w) xs")
       (simp_all add: foldE_append last_such_snoc focus_visit_def c)
qed

lemma last_such_cases:
  "last_such P xs = Some p \<Longrightarrow> P p \<and> p \<in> set xs"
  by (induction xs rule: rev_induct) (auto simp: last_such_snoc last_such_Nil split: if_splits)

lemma wmDrawPanes_focus_repr:
  assumes "repr (nodes w) t" and "DisplayRoot w = Some (root_of t)"
  shows "wmDrawPanes_focus w =
         Some (Inr (if keyboardFocusPane w \<in> set (visit_list t) then w
                    else w\<lparr>keyboardFocusPane := focus_choice w (visit_list t)\<rparr>))"
proof (cases "keyboardFocusPane w \<in> set (visit_list t)")
  case True
  then have "keyboardFocusPane w \<noteq> None"
    using visit_list_Some by blast
  with True assms show ?thesis
    by (auto simp: wmDrawPanes_focus_def wmPaneIsPresent_def VisitPanes_repr foldE_present
        bindR_def ret_def)
next
  case False
  have n: "\<forall>x \<in> set (visit_list t). x \<noteq> None"
    using visit_list_Some by blast
  show ?thesis
  proof (cases "last_such (isCLIPane w) (visit_list t)")
    case None
    with False assms n show ?thesis
      by (cases "last_such (can_focus w) (visit_list t)")
         (simp_all add: wmDrawPanes_focus_def wmPaneIsPresent_def VisitPanes_repr foldE_present
          bindR_def ret_def foldE_cli foldE_focus focus_choice_def)
  next
    case (Some p)
    then have "p \<in> set (visit_list t)"
      using last_such_cases by fastforce
    then have "p \<noteq> None"
      using visit_list_Some by blast
    with Some False assms n show ?thesis
      by (auto simp: wmDrawPanes_focus_def wmPaneIsPresent_def VisitPanes_repr foldE_present
          bindR_def ret_def foldE_cli foldE_focus focus_choice_def)
  qed
qed

lemma ex_visit_list:
  "visit_list ex_tree =
   [Some (PaneObj 0), Some (SplitLinePtr 0), Some (PaneObj 1), Some (SplitLinePtr 2), Some (PaneObj 2)]"
  by (simp add: ex_tree_def)

lemma ex_world_root: "repr (nodes ex_world) ex_tree" "DisplayRoot ex_world = Some (root_of ex_tree)"
  by (simp_all add: ex_world_def ex_nodes_def ex_tree_def)

subsection \<open>SplitX and SplitY\<close>

text \<open>
  C3. For a leaf \<open>d\<close>, a fraction \<open>f\<close> and a new sibling \<open>n\<close>, \<open>d.SplitX(f, n)\<close> returns a
  new internal node: no pane, axis \<open>SplitAxisX\<close>, position \<open>f\<close>, children \<open>[d, n]\<close>, and
  nothing is logged. \<open>d.SplitY(f, n)\<close> returns the same node: its axis is \<open>SplitAxisX\<close>
  too, not \<open>SplitAxisY\<close>.
\<close>

theorem SplitX_SplitY_node:
  assumes "Axis (SplitLine (nodes w d)) = SplitAxisNone"
  shows "(case SplitX (Some d) f n w of
            Inl e \<Rightarrow> False
          | Inr (w', a) \<Rightarrow>
              a = next_node w \<and> Pane (nodes w' a) = None \<and>
              SplitLine (nodes w' a) = \<lparr>Pos = f, Axis = SplitAxisX\<rparr> \<and>
              Children (nodes w' a) = (Some d, n) \<and> errlog w' = errlog w) \<and>
         (case SplitY (Some d) f n w of
            Inl e \<Rightarrow> False
          | Inr (w', a) \<Rightarrow>
              a = next_node w \<and> Pane (nodes w' a) = None \<and>
              Axis (SplitLine (nodes w' a)) = SplitAxisX \<and>
              Axis (SplitLine (nodes w' a)) \<noteq> SplitAxisY \<and>
              Pos (SplitLine (nodes w' a)) = f \<and>
              Children (nodes w' a) = (Some d, n) \<and> errlog w' = errlog w)"
  using assms by (simp add: SplitX_def SplitY_def new_node_def)

text \<open>C3 at the leaf 4 of the concrete display.\<close>

theorem SplitX_SplitY_node_witness:
  "Axis (SplitLine (nodes ex_world 4)) = SplitAxisNone \<and>
   (case SplitX (Some 4) (1 / 3) (Some 1) ex_world of
            Inl e \<Rightarrow> False
          | Inr (w', a) \<Rightarrow>
              a = next_node ex_world \<and> Pane (nodes w' a) = None \<and>
              SplitLine (nodes w' a) = \<lparr>Pos = 1 / 3, Axis = SplitAxisX\<rparr> \<and>
              Children (nodes w' a) = (Some 4, Some 1) \<and> errlog w' = errlog ex_world) \<and>
         (case SplitY (Some 4) (1 / 3) (Some 1) ex_world of
            Inl e \<Rightarrow> False
          | Inr (w', a) \<Rightarrow>
              a = next_node ex_world \<and> Pane (nodes w' a) = None \<and>
              Axis (SplitLine (nodes w' a)) = SplitAxisX \<and>
              Axis (SplitLine (nodes w' a)) \<noteq> SplitAxisY \<and>
              Pos (SplitLine (nodes w' a)) = 1 / 3 \<and>
              Children (nodes w' a) = (Some 4, Some 1) \<and> errlog w' = errlog ex_world)"
proof -
  have h: "Axis (SplitLine (nodes ex_world 4)) = SplitAxisNone"
    by (simp add: ex_world_def ex_nodes_def)
  show ?thesis
    using h SplitX_SplitY_node [OF h, of "1 / 3" "Some 1"] by simp
qed

subsection \<open>NodeForPane\<close>

text \<open>
  C5. On a well-formed tree, \<open>NodeForPane\<close> of a pane reference \<open>P\<close> that some leaf holds
  returns a node whose pane slot is \<open>P\<close>; of a reference that no leaf holds it returns
  nil. The comparison is by reference: what the pane objects contain plays no part.
\<close>

theorem NodeForPane_by_identity:
  assumes "repr h t"
  shows "(P \<in> set (leaf_panes t) \<longrightarrow>
            (\<exists>n. NodeForPane h (Some (root_of t)) (Some P) = Some (Inr (Some n)) \<and>
                 Pane (h n) = Some P)) \<and>
         (P \<notin> set (leaf_panes t) \<longrightarrow>
            NodeForPane h (Some (root_of t)) (Some P) = Some (Inr None))"
proof (cases "find_leaf t P")
  case None
  with assms show ?thesis
    by (simp add: NodeForPane_repr find_leaf_None)
next
  case (Some n)
  with assms have "Pane (h n) = Some P" "P \<in> set (leaf_panes t)"
    using find_leaf_Some [of h t P n] find_leaf_None [of t P] by auto
  with assms Some show ?thesis
    by (simp add: NodeForPane_repr)
qed

text \<open>
  C5 on the concrete display: pane 1 is found; pane 3, an object with the same contents
  that is not in the tree, is not.
\<close>

theorem NodeForPane_by_identity_witness:
  "repr ex_nodes ex_tree \<and> ex_panes 1 = ex_panes 3 \<and>
   PaneObj 1 \<in> set (leaf_panes ex_tree) \<and> PaneObj 3 \<notin> set (leaf_panes ex_tree) \<and>
   (\<exists>n. NodeForPane ex_nodes (Some (root_of ex_tree)) (Some (PaneObj 1)) = Some (Inr (Some n)) \<and>
        Pane (ex_nodes n) = Some (PaneObj 1)) \<and>
   NodeForPane ex_nodes (Some (root_of ex_tree)) (Some (PaneObj 3)) = Some (Inr None)"
proof -
  have r: "repr ex_nodes ex_tree"
    by (simp add: ex_nodes_def ex_tree_def)
  have m: "PaneObj 1 \<in> set (leaf_panes ex_tree)" "PaneObj 3 \<notin> set (leaf_panes ex_tree)"
    by (simp_all add: ex_tree_def)
  have e: "ex_panes 1 = ex_panes 3"
    by (simp add: ex_panes_def)
  show ?thesis
    using r m e NodeForPane_by_identity [OF r, of "PaneObj 1"]
      NodeForPane_by_identity [OF r, of "PaneObj 3"]
    by blast
qed

end
